theory Spec2Isabelle
  imports Main "HOL-Library.Word"
begin

unbundle bit_operations_syntax

section \<open>AudioSource (media/libstagefright/AudioSource.cpp)\<close>

text \<open>
  A shallow embedding of \<^verbatim>\<open>AudioSource.cpp\<close>. Conventions:
  \<^item> \<^verbatim>\<open>uint32_t\<close> and \<^verbatim>\<open>size_t\<close> (the code base targets 32-bit
    ARM) are \<open>32 word\<close>, \<^verbatim>\<open>int16_t\<close> is \<open>16 word\<close> read through \<open>sint\<close>,
    bytes are \<open>8 word\<close>;
  \<^item> \<^verbatim>\<open>int64_t\<close> times and counters, \<^verbatim>\<open>ssize_t\<close> and \<^verbatim>\<open>int32_t\<close>
    locals are \<open>int\<close>: signed overflow is undefined in C++, the model follows the
    mathematical value;
  \<^item> a failed \<^verbatim>\<open>CHECK\<close>, a null dereference and a division by zero end the
    process: they are the outcome \<open>Aborted\<close>;
  \<^item> the capture device (\<^verbatim>\<open>AudioRecord\<close>), the buffer pool and the clock are
    outside the file: what they answer is an argument of the model.
\<close>

subsection \<open>Data\<close>

datatype status_t = OK | UNKNOWN_ERROR | NO_INIT | OTHER_ERROR int

datatype 'a outcome = Returns 'a | Aborted

text \<open>The keys of \<^verbatim>\<open>MetaData\<close> that this file reads or writes.\<close>

record meta_data =
  kKeyTime :: "int option"
  kKeyAnchorTime :: "int option"
  kKeyDriftTime :: "int option"

text \<open>
  A \<^verbatim>\<open>MediaBuffer\<close>: its valid range and the bytes of that range (the bytes of a
  pooled buffer beyond the valid range keep what they held and are not modelled).
\<close>

record media_buffer =
  range_offset :: "32 word"
  range_length :: "32 word"
  bdata :: "8 word list"
  meta :: meta_data

text \<open>
  The constants of the enum in \<^verbatim>\<open>AudioSource.h\<close>, which is not part of the sources
  at hand: they are parameters of the model.
\<close>

record header_consts =
  kMaxBufferSize :: "32 word"
  kAutoRampDurationUs :: "32 word"
  kAutoRampStartUs :: "32 word"

text \<open>The fixed answers of the \<^verbatim>\<open>AudioRecord\<close> the source was constructed on.\<close>

record audio_record =
  channelCount :: nat
  getSampleRate :: "32 word"
  latency :: "32 word"

text \<open>
  Modelled from the spec: \<^verbatim>\<open>AudioRecord::frameSize\<close> is not under src/; the spec
  gives the conversion of frames to bytes as 2 bytes per sample times the channel count.
\<close>

definition frameSize :: "audio_record \<Rightarrow> 32 word" where
  "frameSize d = 2 * word_of_nat (channelCount d)"

text \<open>
  What the blocking \<^verbatim>\<open>AudioRecord::read\<close> returns: a value \<open>\<le> 0\<close> (here \<open>- e\<close>), or
  the bytes it stored into the buffer, whose number is the value returned.
\<close>

datatype pcm_read = ReadError nat | ReadBytes "8 word list"

fun read_n :: "pcm_read \<Rightarrow> int" where
  "read_n (ReadError e) = - int e"
| "read_n (ReadBytes bs) = int (length bs)"

fun read_bytes :: "pcm_read \<Rightarrow> 8 word list" where
  "read_bytes (ReadError e) = []"
| "read_bytes (ReadBytes bs) = bs"

text \<open>What the device answers during one iteration of the loop of \<^verbatim>\<open>read\<close>.\<close>

record dev_obs =
  getPosition :: "32 word"
  getInputFramesLost :: "32 word"
  record_read :: pcm_read

text \<open>The buffer of the \<^verbatim>\<open>EVENT_MORE_DATA\<close> callback: \<open>size\<close> is the number of bytes.\<close>

record audio_buffer =
  raw :: "8 word list"

definition size_of :: "audio_buffer \<Rightarrow> 32 word" where
  "size_of ab = word_of_nat (length (raw ab))"

text \<open>The members of \<^verbatim>\<open>AudioSource\<close>; \<open>mGroup\<close> tells whether the pool is allocated.\<close>

record audio_source =
  mInitCheck :: status_t
  mStarted :: bool
  mCollectStats :: bool
  mTrackMaxAmplitude :: bool
  mSampleRate :: "32 word"
  mStartTimeUs :: int
  mMaxAmplitude :: "16 word"
  mPrevSampleTimeUs :: int
  mTotalLostFrames :: int
  mPrevLostBytes :: int
  mInitialReadTimeUs :: int
  mNumFramesReceived :: int
  mGroup :: bool
  mBuffersReceived :: "media_buffer list"
  mNumClientOwnedBuffers :: int

subsection \<open>Construction, start and stop\<close>

text \<open>
  The constructor checks the channel count, sets the members of its initialiser list
  and takes \<open>mInitCheck\<close> from the \<^verbatim>\<open>AudioRecord\<close> it creates (\<open>record_init\<close>). The four
  members it leaves uninitialised hold indeterminate values, given here as arguments.
\<close>

definition AudioSource_new ::
  "32 word \<Rightarrow> 32 word \<Rightarrow> status_t \<Rightarrow> bool \<Rightarrow> int \<Rightarrow> 16 word \<Rightarrow> int
     \<Rightarrow> audio_source outcome" where
  "AudioSource_new sampleRate channels record_init u_track u_start u_max u_initial =
     (if channels = 1 \<or> channels = 2
      then Returns
             \<lparr>mInitCheck = record_init, mStarted = False, mCollectStats = False,
              mTrackMaxAmplitude = u_track, mSampleRate = sampleRate,
              mStartTimeUs = u_start, mMaxAmplitude = u_max, mPrevSampleTimeUs = 0,
              mTotalLostFrames = 0, mPrevLostBytes = 0, mInitialReadTimeUs = u_initial,
              mNumFramesReceived = 0, mGroup = False, mBuffersReceived = [],
              mNumClientOwnedBuffers = 0\<rparr>
      else Aborted)"

definition initCheck :: "audio_source \<Rightarrow> status_t" where
  "initCheck s = mInitCheck s"

text \<open>
  \<^verbatim>\<open>start(params)\<close>: \<open>stats_prop\<close> is whether the system property asks for statistics,
  \<open>params\<close> the optional \<^verbatim>\<open>MetaData\<close>, \<open>record_start\<close> what \<^verbatim>\<open>mRecord->start()\<close>
  returns.
\<close>

definition start ::
  "bool \<Rightarrow> meta_data option \<Rightarrow> status_t \<Rightarrow> audio_source \<Rightarrow> status_t \<times> audio_source" where
  "start stats_prop params record_start s =
     (if mStarted s then (UNKNOWN_ERROR, s)
      else if mInitCheck s \<noteq> OK then (NO_INIT, s)
      else
        let s1 = (if stats_prop then s\<lparr>mCollectStats := True\<rparr> else s);
            s2 = s1\<lparr>mTrackMaxAmplitude := False, mMaxAmplitude := 0,
                    mInitialReadTimeUs := 0, mStartTimeUs := 0\<rparr>;
            s3 = (case params of
                    None \<Rightarrow> s2
                  | Some p \<Rightarrow> (case kKeyTime p of
                                None \<Rightarrow> s2
                              | Some startTimeUs \<Rightarrow> s2\<lparr>mStartTimeUs := startTimeUs\<rparr>));
            err = record_start
        in if err = OK then (err, s3\<lparr>mGroup := True, mStarted := True\<rparr>)
           else (err, s3))"

definition releaseQueuedFrames_l :: "audio_source \<Rightarrow> audio_source" where
  "releaseQueuedFrames_l s = s\<lparr>mBuffersReceived := []\<rparr>"

text \<open>
  \<^verbatim>\<open>waitOutstandingEncodingFrames_l\<close> waits on the condition while the count is
  positive. Each wait releases the lock; the list holds, wait by wait, what the other
  threads do to the members before the waiter wakes. A waiter for whom the list is
  exhausted is still blocked: the value is \<open>None\<close>.
\<close>

fun waitOutstandingEncodingFrames_l ::
  "(audio_source \<Rightarrow> audio_source) list \<Rightarrow> audio_source \<Rightarrow> audio_source option" where
  "waitOutstandingEncodingFrames_l [] s =
     (if mNumClientOwnedBuffers s > 0 then None else Some s)"
| "waitOutstandingEncodingFrames_l (e # es) s =
     (if mNumClientOwnedBuffers s > 0 then waitOutstandingEncodingFrames_l es (e s)
      else Some s)"

definition stop ::
  "(audio_source \<Rightarrow> audio_source) list \<Rightarrow> audio_source \<Rightarrow> (status_t \<times> audio_source) option" where
  "stop others s =
     (if \<not> mStarted s then Some (UNKNOWN_ERROR, s)
      else if mInitCheck s \<noteq> OK then Some (NO_INIT, s)
      else case waitOutstandingEncodingFrames_l others (s\<lparr>mStarted := False\<rparr>) of
             None \<Rightarrow> None
           | Some s' \<Rightarrow> Some (OK, releaseQueuedFrames_l s'))"

definition signalBufferReturned :: "media_buffer \<Rightarrow> audio_source \<Rightarrow> audio_source" where
  "signalBufferReturned buffer s =
     s\<lparr>mNumClientOwnedBuffers := mNumClientOwnedBuffers s - 1\<rparr>"

subsection \<open>Skipping, ramping, amplitude\<close>

text \<open>
  \<^verbatim>\<open>skipFrame\<close>: \<open>options\<close> is \<open>None\<close> when there are no read options or they carry
  no skip request. The comparison with the double \<^verbatim>\<open>1E6\<close> is the comparison with
  1000000: the conversion of an \<^verbatim>\<open>int64_t\<close> to double is monotone and 1000000 is a
  double.
\<close>

definition skipFrame :: "int \<Rightarrow> int option \<Rightarrow> int" where
  "skipFrame timestampUs options =
     (case options of
        None \<Rightarrow> 0
      | Some skipFrameUs \<Rightarrow>
          if skipFrameUs \<le> timestampUs then 0
          else if skipFrameUs - timestampUs \<ge> 1000000 then - 1
          else 1)"

text \<open>The \<^verbatim>\<open>int16_t\<close> view of a byte buffer and back (little endian, as on the targets).\<close>

fun i16_view :: "8 word list \<Rightarrow> 16 word list" where
  "i16_view (lo # hi # bs) = (push_bit 8 (ucast hi) OR ucast lo) # i16_view bs"
| "i16_view bs = []"

fun u8_view :: "16 word list \<Rightarrow> 8 word list" where
  "u8_view [] = []"
| "u8_view (v # vs) = ucast v # ucast (drop_bit 8 v) # u8_view vs"

text \<open>C++ division of \<^verbatim>\<open>int\<close>s truncates towards zero.\<close>

definition cdiv :: "int \<Rightarrow> int \<Rightarrow> int" where
  "cdiv a b = (if (a < 0) = (b < 0) then \<bar>a\<bar> div \<bar>b\<bar> else - (\<bar>a\<bar> div \<bar>b\<bar>))"

text \<open>\<^verbatim>\<open>frame[k] = (frame[k] * fixedMultiplier) >> kShift\<close> at index \<open>i\<close> of the samples.\<close>

definition scale_at :: "int \<Rightarrow> nat \<Rightarrow> 16 word list \<Rightarrow> 16 word list" where
  "scale_at fixedMultiplier i frame =
     (if i < length frame
      then frame[i := word_of_int ((sint (frame ! i) * fixedMultiplier) div 2 ^ 14)]
      else frame)"

text \<open>
  The loop of \<^verbatim>\<open>rampVolume\<close>; \<open>i\<close> is how far the pointer \<^verbatim>\<open>frame\<close> has moved. A
  write beyond the samples (undefined in C++) leaves them as they are.
\<close>

function rampVolume_loop ::
  "int \<Rightarrow> nat \<Rightarrow> int \<Rightarrow> int \<Rightarrow> int \<Rightarrow> nat \<Rightarrow> 16 word list \<Rightarrow> 16 word list" where
  "rampVolume_loop rampDurationFrames nChannels stopFrame startFrame fixedMultiplier i frame =
     (if startFrame < stopFrame then
        let frame1 = (if nChannels = 1 then scale_at fixedMultiplier i frame
                      else scale_at fixedMultiplier (i + 1) (scale_at fixedMultiplier i frame));
            i1 = (if nChannels = 1 then i + 1 else i + 2);
            startFrame1 = (if nChannels = 1 then startFrame + 1 else startFrame + 2);
            fixedMultiplier1 =
              (if startFrame1 AND 3 = 0
               then cdiv (startFrame1 * 2 ^ 14) rampDurationFrames
               else fixedMultiplier)
        in rampVolume_loop rampDurationFrames nChannels stopFrame startFrame1 fixedMultiplier1 i1 frame1
      else frame)"
  by pat_completeness auto
termination
  by (relation "measure (\<lambda>(r, c, stopFrame, startFrame, m, i, f). nat (stopFrame - startFrame))")
     (auto split: if_splits)

text \<open>
  \<^verbatim>\<open>rampVolume(startFrame, rampDurationFrames, data, bytes)\<close>; a zero
  \<open>rampDurationFrames\<close> is a division by zero.
\<close>

definition rampVolume ::
  "audio_record \<Rightarrow> int \<Rightarrow> int \<Rightarrow> 8 word list \<Rightarrow> 32 word \<Rightarrow> 8 word list outcome" where
  "rampVolume d startFrame rampDurationFrames data bytes =
     (if rampDurationFrames = 0 then Aborted
      else
        let fixedMultiplier = cdiv (startFrame * 2 ^ 14) rampDurationFrames;
            nChannels = channelCount d;
            stopFrame0 = sint (word_of_int startFrame + drop_bit 1 bytes :: 32 word);
            frame = i16_view data;
            stopFrame = (if stopFrame0 > rampDurationFrames then rampDurationFrames
                         else stopFrame0);
            frame' = rampVolume_loop rampDurationFrames nChannels stopFrame startFrame
                       fixedMultiplier 0 frame
        in Returns (u8_view frame' @ drop (2 * length frame') data))"

text \<open>
  One round of the loop of \<^verbatim>\<open>trackMaxAmplitude\<close>. The negation is computed in
  \<^verbatim>\<open>int\<close> and stored back into the \<^verbatim>\<open>int16_t\<close>, which keeps its low 16 bits: it
  is the negation of \<open>16 word\<close>. The two comparisons are signed.
\<close>

definition track_sample :: "16 word \<Rightarrow> audio_source \<Rightarrow> audio_source" where
  "track_sample v0 s =
     (let v = (if sint v0 < 0 then - v0 else v0)
      in if sint (mMaxAmplitude s) < sint v then s\<lparr>mMaxAmplitude := v\<rparr> else s)"

definition trackMaxAmplitude :: "16 word list \<Rightarrow> int \<Rightarrow> audio_source \<Rightarrow> audio_source" where
  "trackMaxAmplitude data nSamples s = fold track_sample (take (nat nSamples) data) s"

definition getMaxAmplitude :: "audio_source \<Rightarrow> 16 word \<times> audio_source" where
  "getMaxAmplitude s =
     (let s1 = (if \<not> mTrackMaxAmplitude s then s\<lparr>mTrackMaxAmplitude := True\<rparr> else s);
          v = mMaxAmplitude s1
      in (v, s1\<lparr>mMaxAmplitude := 0\<rparr>))"

subsection \<open>The pull path: read\<close>

text \<open>
  The first data of a session (the body of the \<^verbatim>\<open>if\<close> that both \<^verbatim>\<open>read\<close> and
  \<^verbatim>\<open>dataCallbackTimestamp\<close> carry): the time of the first read, the initial delay,
  and the cursor seeded with it. \<^verbatim>\<open>latency() * 1000\<close> is a product of
  \<^verbatim>\<open>uint32_t\<close>.
\<close>

definition anchor_first_data :: "audio_record \<Rightarrow> int \<Rightarrow> audio_source \<Rightarrow> audio_source" where
  "anchor_first_data d timeUs s =
     (let s1 = s\<lparr>mInitialReadTimeUs := timeUs\<rparr>;
          s2 = (if mStartTimeUs s1 > 0
                then s1\<lparr>mStartTimeUs := timeUs - mStartTimeUs s1\<rparr>
                else s1\<lparr>mStartTimeUs := mStartTimeUs s1 + uint (latency d * 1000)\<rparr>)
      in s2\<lparr>mPrevSampleTimeUs := mStartTimeUs s2\<rparr>)"

text \<open>
  \<^verbatim>\<open>((1000000LL * (bytes >> 1)) + (sampleRate >> 1)) / sampleRate\<close>, the duration of
  the lost-data path and of the callback; the caller excludes a zero rate.
\<close>

definition roundedDurationUs :: "32 word \<Rightarrow> 32 word \<Rightarrow> int" where
  "roundedDurationUs sampleRate bytes =
     (1000000 * uint (drop_bit 1 bytes) + uint (drop_bit 1 sampleRate)) div uint sampleRate"

text \<open>
  \<^verbatim>\<open>(1000000LL * n >> 1) / sampleRate\<close>, the duration of the data path; there
  \<open>n > 0\<close>, so that the shift and the division are those of non-negative numbers.
\<close>

definition recordDurationUs :: "32 word \<Rightarrow> int \<Rightarrow> int" where
  "recordDurationUs sampleRate n = ((1000000 * n) div 2) div uint sampleRate"

text \<open>The mute and ramp of the first data of a session, on the \<open>n\<close> bytes read.\<close>

definition auto_ramp ::
  "header_consts \<Rightarrow> audio_record \<Rightarrow> 32 word \<Rightarrow> int \<Rightarrow> 8 word list \<Rightarrow> audio_source
     \<Rightarrow> 8 word list outcome" where
  "auto_ramp c d numFramesRecorded n data s =
     (let sampleRate = getSampleRate d in
      if mPrevSampleTimeUs s - mStartTimeUs s < uint (kAutoRampStartUs c)
      then Returns (replicate (nat n) 0)
      else if mPrevSampleTimeUs s - mStartTimeUs s
                < uint (kAutoRampStartUs c) + uint (kAutoRampDurationUs c)
      then
        let autoRampDurationFrames =
              (uint (kAutoRampDurationUs c * sampleRate) + 500000) div 1000000;
            autoRampStartFrames =
              (uint (kAutoRampStartUs c * sampleRate) + 500000) div 1000000;
            nFrames = sint (numFramesRecorded - word_of_int autoRampStartFrames)
        in rampVolume d nFrames autoRampDurationFrames data (word_of_int n)
      else Returns data)"

datatype iter =
    Continue audio_source
  | Finished "status_t \<times> media_buffer option \<times> audio_source"
  | Crashed

text \<open>The branch \<^verbatim>\<open>if (numLostBytes > 0)\<close> of the loop of \<^verbatim>\<open>read\<close>.\<close>

definition read_lost ::
  "header_consts \<Rightarrow> audio_record \<Rightarrow> int \<Rightarrow> int option \<Rightarrow> 32 word \<Rightarrow> 32 word
     \<Rightarrow> audio_source \<Rightarrow> iter" where
  "read_lost c d readTimeUs options numFramesRecorded numLostBytes0 s =
     (let sampleRate = getSampleRate d;
          timestampUs = mPrevSampleTimeUs s;
          s1 = (if numLostBytes0 > kMaxBufferSize c
                then s\<lparr>mPrevLostBytes := uint (numLostBytes0 - kMaxBufferSize c)\<rparr>
                else s\<lparr>mPrevLostBytes := 0\<rparr>);
          numLostBytes = (if numLostBytes0 > kMaxBufferSize c then kMaxBufferSize c
                          else numLostBytes0)
      in if numLostBytes AND 1 \<noteq> 0 then Crashed
         else if sampleRate = 0 then Crashed
         else
           let timestampUs1 = timestampUs + roundedDurationUs sampleRate numLostBytes in
           if \<not> timestampUs1 > mPrevSampleTimeUs s1 then Crashed
           else
             let s2 = (if mCollectStats s1
                       then s1\<lparr>mTotalLostFrames :=
                                 mTotalLostFrames s1 + uint (drop_bit 1 numLostBytes)\<rparr>
                       else s1);
                 err = skipFrame timestampUs1 options
             in if err = - 1 then Finished (UNKNOWN_ERROR, None, s2)
                else if err \<noteq> 0 then Continue s2
                else
                  let buffer =
                        \<lparr>range_offset = 0, range_length = numLostBytes,
                         bdata = replicate (unat numLostBytes) 0,
                         meta = \<lparr>kKeyTime = Some (mStartTimeUs s2 + mPrevSampleTimeUs s2),
                                 kKeyAnchorTime =
                                   (if numFramesRecorded = 0 then Some (mStartTimeUs s2)
                                    else None),
                                 kKeyDriftTime = Some (readTimeUs - mInitialReadTimeUs s2)\<rparr>\<rparr>
                  in Finished (OK, Some buffer, s2\<lparr>mPrevSampleTimeUs := timestampUs1\<rparr>))"

text \<open>The rest of the loop body: the blocking read of the device and what follows.\<close>

definition read_data ::
  "header_consts \<Rightarrow> audio_record \<Rightarrow> int \<Rightarrow> int option \<Rightarrow> 32 word \<Rightarrow> pcm_read
     \<Rightarrow> audio_source \<Rightarrow> iter" where
  "read_data c d readTimeUs options numFramesRecorded r s =
     (let sampleRate = getSampleRate d;
          timestampUs = mPrevSampleTimeUs s;
          n = read_n r
      in if n \<le> 0 then Finished (UNKNOWN_ERROR, None, s)
         else if sampleRate = 0 then Crashed
         else
           let timestampUs1 = timestampUs + recordDurationUs sampleRate n;
               err = skipFrame timestampUs1 options
           in if err = - 1 then Finished (UNKNOWN_ERROR, None, s)
              else if err \<noteq> 0 then Continue s
              else
                case auto_ramp c d numFramesRecorded n (read_bytes r) s of
                  Aborted \<Rightarrow> Crashed
                | Returns data \<Rightarrow>
                    let s1 = (if mTrackMaxAmplitude s
                              then trackMaxAmplitude (i16_view data) (n div 2) s
                              else s);
                        buffer =
                          \<lparr>range_offset = 0, range_length = word_of_int n, bdata = data,
                           meta = \<lparr>kKeyTime = Some (mStartTimeUs s1 + mPrevSampleTimeUs s1),
                                   kKeyAnchorTime =
                                     (if numFramesRecorded = 0 then Some (mStartTimeUs s1)
                                      else None),
                                   kKeyDriftTime =
                                     Some (readTimeUs - mInitialReadTimeUs s1)\<rparr>\<rparr>
                    in if \<not> timestampUs1 > mPrevSampleTimeUs s1 then Crashed
                       else Finished (OK, Some buffer, s1\<lparr>mPrevSampleTimeUs := timestampUs1\<rparr>))"

text \<open>One round of \<^verbatim>\<open>while (mStarted)\<close>.\<close>

definition read_iter ::
  "header_consts \<Rightarrow> audio_record \<Rightarrow> int \<Rightarrow> int option \<Rightarrow> dev_obs \<Rightarrow> audio_source \<Rightarrow> iter" where
  "read_iter c d readTimeUs options ob s =
     (let numFramesRecorded = getPosition ob;
          s1 = (if numFramesRecorded = 0 \<and> mPrevSampleTimeUs s = 0
                then anchor_first_data d readTimeUs s else s);
          numLostBytes0 = push_bit 1 (getInputFramesLost ob);
          numLostBytes = (word_of_int (uint numLostBytes0 + mPrevLostBytes s1) :: 32 word)
      in if numLostBytes > 0
         then read_lost c d readTimeUs options numFramesRecorded numLostBytes s1
         else read_data c d readTimeUs options numFramesRecorded (record_read ob) s1)"

text \<open>
  The loop runs under the lock, so \<open>mStarted\<close> is the member as the loop left it. Each
  round consumes what the device answered in it; a call for which the answers are
  exhausted has not returned: the value is \<open>None\<close>.
\<close>

fun read_loop ::
  "header_consts \<Rightarrow> audio_record \<Rightarrow> int \<Rightarrow> int option \<Rightarrow> dev_obs list \<Rightarrow> audio_source
     \<Rightarrow> (status_t \<times> media_buffer option \<times> audio_source) outcome option" where
  "read_loop c d readTimeUs options [] s =
     (if mStarted s then None else Some (Returns (OK, None, s)))"
| "read_loop c d readTimeUs options (ob # obs) s =
     (if mStarted s then
        (case read_iter c d readTimeUs options ob s of
           Continue s' \<Rightarrow> read_loop c d readTimeUs options obs s'
         | Finished r \<Rightarrow> Some (Returns r)
         | Crashed \<Rightarrow> Some Aborted)
      else Some (Returns (OK, None, s)))"

text \<open>
  \<^verbatim>\<open>read(out, options)\<close> at the time \<open>readTimeUs\<close>; the result carries \<^verbatim>\<open>*out\<close>.
  Acquiring from a pool that \<^verbatim>\<open>start\<close> never allocated dereferences null. The pool
  hands out its buffer with fresh metadata; the model takes the buffer to be free when
  \<^verbatim>\<open>read\<close> asks for it.
\<close>

definition read ::
  "header_consts \<Rightarrow> audio_record \<Rightarrow> int \<Rightarrow> int option \<Rightarrow> dev_obs list \<Rightarrow> audio_source
     \<Rightarrow> (status_t \<times> media_buffer option \<times> audio_source) outcome option" where
  "read c d readTimeUs options obs s =
     (if mInitCheck s \<noteq> OK then Some (Returns (NO_INIT, None, s))
      else if \<not> mGroup s then Some Aborted
      else read_loop c d readTimeUs options obs s)"

subsection \<open>The push path: dataCallbackTimestamp\<close>

text \<open>
  \<open>framesLost\<close> is what \<^verbatim>\<open>getInputFramesLost()\<close> answers in this callback (the drop
  branch asks and discards it).
\<close>

definition dataCallbackTimestamp ::
  "audio_record \<Rightarrow> 32 word \<Rightarrow> audio_buffer \<Rightarrow> int \<Rightarrow> audio_source
     \<Rightarrow> (status_t \<times> audio_source) outcome" where
  "dataCallbackTimestamp d framesLost audioBuffer timeUs s =
     (if \<not> mStarted s then Returns (OK, s)
      else if mNumFramesReceived s = 0 \<and> timeUs < mStartTimeUs s then Returns (OK, s)
      else
        let s1 = (if mNumFramesReceived s = 0 \<and> mPrevSampleTimeUs s = 0
                  then anchor_first_data d timeUs s else s);
            timestampUs = mPrevSampleTimeUs s1;
            numLostBytes = (if mNumFramesReceived s1 > 0 then framesLost * frameSize d else 0)
        in if numLostBytes AND 1 \<noteq> 0 then Aborted
           else if size_of audioBuffer AND 1 \<noteq> 0 then Aborted
           else
             let bufferSize = numLostBytes + size_of audioBuffer in
             if \<not> numLostBytes > 0 \<and> size_of audioBuffer = 0 then Returns (OK, s1)
             else if mSampleRate s1 = 0 then Aborted
             else
               let data = (if numLostBytes > 0
                           then replicate (unat numLostBytes) 0 @ raw audioBuffer
                           else raw audioBuffer);
                   timestampUs1 = timestampUs + roundedDurationUs (mSampleRate s1) bufferSize;
                   buffer =
                     \<lparr>range_offset = 0, range_length = bufferSize, bdata = data,
                      meta = \<lparr>kKeyTime = Some (mPrevSampleTimeUs s1),
                              kKeyAnchorTime =
                                (if mNumFramesReceived s1 = 0 then Some (mStartTimeUs s1)
                                 else None),
                              kKeyDriftTime = Some (timeUs - mInitialReadTimeUs s1)\<rparr>\<rparr>
               in Returns (OK, s1\<lparr>mPrevSampleTimeUs := timestampUs1,
                                  mNumFramesReceived :=
                                    mNumFramesReceived s1 + uint (range_length buffer) div 2,
                                  mBuffersReceived := mBuffersReceived s1 @ [buffer]\<rparr>))"

subsection \<open>Concrete sessions\<close>

text \<open>
  An instance of the header's constants (a 2048-byte buffer, a mute of one second and a
  ramp of 0.7 seconds), a mono and a stereo device at 44100 Hz with 100 ms of latency,
  a source as the constructor leaves it on such a device (the indeterminate members
  being zero), and that source started with no parameters.
\<close>

definition header_2048 :: header_consts where
  "header_2048 =
     \<lparr>kMaxBufferSize = 2048, kAutoRampDurationUs = 700000, kAutoRampStartUs = 1000000\<rparr>"

definition mono_44100 :: audio_record where
  "mono_44100 = \<lparr>channelCount = 1, getSampleRate = 44100, latency = 100\<rparr>"

definition stereo_44100 :: audio_record where
  "stereo_44100 = \<lparr>channelCount = 2, getSampleRate = 44100, latency = 100\<rparr>"

definition new_source :: audio_source where
  "new_source =
     \<lparr>mInitCheck = OK, mStarted = False, mCollectStats = False,
      mTrackMaxAmplitude = False, mSampleRate = 44100, mStartTimeUs = 0,
      mMaxAmplitude = 0, mPrevSampleTimeUs = 0, mTotalLostFrames = 0,
      mPrevLostBytes = 0, mInitialReadTimeUs = 0, mNumFramesReceived = 0,
      mGroup = False, mBuffersReceived = [], mNumClientOwnedBuffers = 0\<rparr>"

definition started_source :: audio_source where
  "started_source = snd (start False None OK new_source)"

text \<open>The state of an outcome, and the buffer it carries, for chaining calls.\<close>

fun state_of :: "(status_t \<times> media_buffer option \<times> audio_source) outcome option
     \<Rightarrow> audio_source option" where
  "state_of (Some (Returns (st, b, s))) = Some s"
| "state_of _ = None"

fun buffer_of :: "(status_t \<times> media_buffer option \<times> audio_source) outcome option
     \<Rightarrow> media_buffer option" where
  "buffer_of (Some (Returns (st, b, s))) = b"
| "buffer_of _ = None"

fun status_of :: "(status_t \<times> media_buffer option \<times> audio_source) outcome option
     \<Rightarrow> status_t option" where
  "status_of (Some (Returns (st, b, s))) = Some st"
| "status_of _ = None"

fun pushed :: "(status_t \<times> audio_source) outcome \<Rightarrow> audio_source option" where
  "pushed (Returns (st, s)) = Some s"
| "pushed Aborted = None"

text \<open>
  What the device answers in a round that finds \<open>k\<close> lost frames (the read is not
  reached), and in a round that finds none and reads the bytes \<open>bs\<close> at position \<open>p\<close>.
\<close>

definition obs_lost :: "32 word \<Rightarrow> dev_obs" where
  "obs_lost k = \<lparr>getPosition = 0, getInputFramesLost = k, record_read = ReadError 0\<rparr>"

definition obs_data :: "32 word \<Rightarrow> 8 word list \<Rightarrow> dev_obs" where
  "obs_data p bs = \<lparr>getPosition = p, getInputFramesLost = 0, record_read = ReadBytes bs\<rparr>"

text \<open>The first \<^verbatim>\<open>read\<close> of the session, at 5 s of wall-clock time: one sample.\<close>

definition first_read :: "(status_t \<times> media_buffer option \<times> audio_source) outcome option" where
  "first_read = read header_2048 mono_44100 5000000 None [obs_data 0 [1, 0]] started_source"

text \<open>The same session two seconds of media time later, past the mute and the ramp.\<close>

definition late_source :: audio_source where
  "late_source =
     started_source\<lparr>mInitialReadTimeUs := 5000000, mStartTimeUs := 100000,
                    mPrevSampleTimeUs := 2100000\<rparr>"


text \<open>The first callback of the session, at the same time: one sample.\<close>

definition first_push :: "audio_source option" where
  "first_push =
     pushed (dataCallbackTimestamp mono_44100 0 \<lparr>raw = [1, 0]\<rparr> 5000000 started_source)"

text \<open>After the first \<^verbatim>\<open>read\<close>: a callback, or \<^verbatim>\<open>stop\<close> with no other thread acting.\<close>

definition push_after_first_read :: "audio_source option" where
  "push_after_first_read =
     Option.bind (state_of first_read)
       (\<lambda>s. pushed (dataCallbackTimestamp mono_44100 0 \<lparr>raw = [1, 0]\<rparr> 5000022 s))"

definition stop_after_first_read :: "(status_t \<times> audio_source) option" where
  "stop_after_first_read = Option.bind (state_of first_read) (stop [])"

text \<open>A first \<^verbatim>\<open>read\<close> that finds \<open>k\<close> lost frames on the device \<open>d\<close>.\<close>

definition lost_frames_read ::
  "audio_record \<Rightarrow> int option \<Rightarrow> 32 word
     \<Rightarrow> (status_t \<times> media_buffer option \<times> audio_source) outcome option" where
  "lost_frames_read d options k =
     read header_2048 d 5000000 options [obs_lost k] started_source"

text \<open>
  A session in which both paths have run: the first callback, then a \<^verbatim>\<open>read\<close> that
  finds 2000 lost frames; and the callback that follows, with 10 lost frames.
\<close>

definition used_source :: "audio_source option" where
  "used_source =
     Option.bind first_push
       (\<lambda>s. state_of (read header_2048 mono_44100 5000022 None [obs_lost 2000] s))"

definition push_on_used :: "audio_source option" where
  "push_on_used =
     Option.bind used_source
       (\<lambda>s. pushed (dataCallbackTimestamp mono_44100 10 \<lparr>raw = [1, 0]\<rparr> 5000100 s))"

text \<open>That session stopped, with no buffer to wait for, and started again.\<close>

definition restarted :: "(status_t \<times> audio_source) option" where
  "restarted =
     Option.bind used_source
       (\<lambda>s. map_option (\<lambda>r. start False None OK (snd r)) (stop [] s))"

text \<open>
  The first \<^verbatim>\<open>read\<close> of the session started again, at 9 s of wall-clock time, the
  device being at position 0 with no lost frame and one sample to read.
\<close>

definition read_after_restart ::
  "(status_t \<times> media_buffer option \<times> audio_source) outcome option" where
  "read_after_restart =
     Option.bind restarted
       (\<lambda>r. read header_2048 mono_44100 9000000 None [obs_data 0 [1, 0]] (snd r))"

text \<open>A device that reports no latency.\<close>

definition mono_no_latency :: audio_record where
  "mono_no_latency = \<lparr>channelCount = 1, getSampleRate = 44100, latency = 0\<rparr>"

text \<open>Reading a data path's result: the bytes delivered and the peak reported next.\<close>

definition extreme_read :: "(status_t \<times> media_buffer option \<times> audio_source) outcome option" where
  "extreme_read =
     read header_2048 mono_44100 7000000 None [obs_data 88200 [0, 128]]
       (snd (getMaxAmplitude late_source))"

section \<open>Properties\<close>

subsection \<open>Evaluation of the concrete sessions\<close>

lemmas read_defs =
  read_def read_iter_def anchor_first_data_def read_lost_def read_data_def
  roundedDurationUs_def recordDurationUs_def skipFrame_def auto_ramp_def
  obs_lost_def obs_data_def

lemmas callback_defs =
  dataCallbackTimestamp_def anchor_first_data_def roundedDurationUs_def frameSize_def
  size_of_def

lemma started_source_eq:
  "started_source =
     \<lparr>mInitCheck = OK, mStarted = True, mCollectStats = False,
      mTrackMaxAmplitude = False, mSampleRate = 44100, mStartTimeUs = 0,
      mMaxAmplitude = 0, mPrevSampleTimeUs = 0, mTotalLostFrames = 0,
      mPrevLostBytes = 0, mInitialReadTimeUs = 0, mNumFramesReceived = 0,
      mGroup = True, mBuffersReceived = [], mNumClientOwnedBuffers = 0\<rparr>"
  by (simp add: started_source_def start_def new_source_def)

lemma new_source_constructed: "AudioSource_new 44100 1 OK False 0 0 0 = Returns new_source"
  by (simp add: AudioSource_new_def new_source_def)

lemma first_read_eq:
  "first_read =
     Some (Returns (OK,
       Some \<lparr>range_offset = 0, range_length = 2, bdata = replicate 2 0,
             meta = \<lparr>kKeyTime = Some 200000, kKeyAnchorTime = Some 100000,
                     kKeyDriftTime = Some 0\<rparr>\<rparr>,
       started_source\<lparr>mInitialReadTimeUs := 5000000, mStartTimeUs := 100000,
                      mPrevSampleTimeUs := 100022\<rparr>))"
  by (simp add: first_read_def started_source_eq read_defs mono_44100_def header_2048_def)

lemma used_source_eq:
  "used_source =
     Some (started_source
       \<lparr>mInitialReadTimeUs := 5000000, mStartTimeUs := 100000,
        mPrevSampleTimeUs := 123243, mPrevLostBytes := 1952, mNumFramesReceived := 1,
        mBuffersReceived :=
          [\<lparr>range_offset = 0, range_length = 2, bdata = [1, 0],
            meta = \<lparr>kKeyTime = Some 100000, kKeyAnchorTime = Some 100000,
                    kKeyDriftTime = Some 0\<rparr>\<rparr>]\<rparr>)"
  by (simp add: used_source_def first_push_def started_source_eq callback_defs read_defs
        mono_44100_def header_2048_def)

subsection \<open>What a call leaves alone\<close>

lemma anchor_fields:
  "mPrevLostBytes (anchor_first_data d t s) = mPrevLostBytes s"
  "mInitCheck (anchor_first_data d t s) = mInitCheck s"
  "mGroup (anchor_first_data d t s) = mGroup s"
  "mStarted (anchor_first_data d t s) = mStarted s"
  "mNumFramesReceived (anchor_first_data d t s) = mNumFramesReceived s"
  "mBuffersReceived (anchor_first_data d t s) = mBuffersReceived s"
  "mSampleRate (anchor_first_data d t s) = mSampleRate s"
  "mMaxAmplitude (anchor_first_data d t s) = mMaxAmplitude s"
  "mTrackMaxAmplitude (anchor_first_data d t s) = mTrackMaxAmplitude s"
  "mNumClientOwnedBuffers (anchor_first_data d t s) = mNumClientOwnedBuffers s"
  by (simp_all add: anchor_first_data_def Let_def)

lemma track_sample_only_peak:
  "track_sample v s = s\<lparr>mMaxAmplitude := mMaxAmplitude (track_sample v s)\<rparr>"
  by (simp add: track_sample_def Let_def)

lemma fold_track_sample:
  "fold track_sample vs s = s\<lparr>mMaxAmplitude := mMaxAmplitude (fold track_sample vs s)\<rparr>"
proof (induction vs arbitrary: s)
  case Nil
  show ?case by simp
next
  case (Cons v vs)
  have "fold track_sample (v # vs) s = fold track_sample vs (track_sample v s)"
    by simp
  also have "\<dots> = (track_sample v s)
      \<lparr>mMaxAmplitude := mMaxAmplitude (fold track_sample vs (track_sample v s))\<rparr>"
    by (rule Cons.IH)
  also have "\<dots> = s\<lparr>mMaxAmplitude := mMaxAmplitude (fold track_sample vs (track_sample v s))\<rparr>"
    by (subst track_sample_only_peak) simp
  finally show ?case by simp
qed

lemma trackMaxAmplitude_only_peak:
  "trackMaxAmplitude data n s = s\<lparr>mMaxAmplitude := mMaxAmplitude (trackMaxAmplitude data n s)\<rparr>"
  unfolding trackMaxAmplitude_def by (rule fold_track_sample)

lemma trackMaxAmplitude_fields:
  "mStartTimeUs (trackMaxAmplitude data n s) = mStartTimeUs s"
  "mPrevSampleTimeUs (trackMaxAmplitude data n s) = mPrevSampleTimeUs s"
  "mInitialReadTimeUs (trackMaxAmplitude data n s) = mInitialReadTimeUs s"
  "mPrevLostBytes (trackMaxAmplitude data n s) = mPrevLostBytes s"
  "mStarted (trackMaxAmplitude data n s) = mStarted s"
  "mGroup (trackMaxAmplitude data n s) = mGroup s"
  "mInitCheck (trackMaxAmplitude data n s) = mInitCheck s"
  "mNumClientOwnedBuffers (trackMaxAmplitude data n s) = mNumClientOwnedBuffers s"
  by (subst trackMaxAmplitude_only_peak, simp)+

subsection \<open>The two branches of a round of read\<close>

text \<open>
  A round of \<^verbatim>\<open>read\<close> anchors the first data, adds the carryover to the lost bytes
  and takes the lost-data branch when the sum is not zero.
\<close>

lemma read_iter_eq:
  "read_iter c d t opts ob s =
     (let s1 = (if getPosition ob = 0 \<and> mPrevSampleTimeUs s = 0
                then anchor_first_data d t s else s);
          pending = push_bit 1 (getInputFramesLost ob) + word_of_int (mPrevLostBytes s)
      in if pending \<noteq> 0 then read_lost c d t opts (getPosition ob) pending s1
         else read_data c d t opts (getPosition ob) (record_read ob) s1)"
  by (simp add: read_iter_def Let_def anchor_fields word_gt_0)

lemma read_iter_lost:
  assumes "push_bit 1 (getInputFramesLost ob) + word_of_int (mPrevLostBytes s) \<noteq> (0 :: 32 word)"
  shows "read_iter c d t opts ob s =
           read_lost c d t opts (getPosition ob)
             (push_bit 1 (getInputFramesLost ob) + word_of_int (mPrevLostBytes s))
             (if getPosition ob = 0 \<and> mPrevSampleTimeUs s = 0
              then anchor_first_data d t s else s)"
  using assms by (simp add: read_iter_eq Let_def)

lemma read_lost_buffer:
  assumes "read_lost c d t opts pos pending s = Finished (OK, Some b, s')"
  shows "range_length b AND 1 = 0 \<and> range_length b \<le> kMaxBufferSize c
         \<and> range_length b = (if pending > kMaxBufferSize c then kMaxBufferSize c else pending)
         \<and> bdata b = replicate (unat (range_length b)) 0
         \<and> mPrevLostBytes s' = uint (pending - range_length b)
         \<and> kKeyTime (meta b) = Some (mStartTimeUs s + mPrevSampleTimeUs s)
         \<and> kKeyDriftTime (meta b) = Some (t - mInitialReadTimeUs s)
         \<and> mStartTimeUs s' = mStartTimeUs s
         \<and> mPrevSampleTimeUs s'
             = mPrevSampleTimeUs s + roundedDurationUs (getSampleRate d) (range_length b)
         \<and> mPrevSampleTimeUs s < mPrevSampleTimeUs s'"
  using assms
  by (auto simp: read_lost_def Let_def split: if_splits)

lemma read_data_buffer:
  assumes "read_data c d t opts pos r s = Finished (OK, Some b, s')"
  shows "range_length b = word_of_int (read_n r)
         \<and> kKeyTime (meta b) = Some (mStartTimeUs s + mPrevSampleTimeUs s)
         \<and> kKeyDriftTime (meta b) = Some (t - mInitialReadTimeUs s)
         \<and> mStartTimeUs s' = mStartTimeUs s
         \<and> mPrevSampleTimeUs s'
             = mPrevSampleTimeUs s + recordDurationUs (getSampleRate d) (read_n r)
         \<and> mPrevSampleTimeUs s < mPrevSampleTimeUs s'
         \<and> mPrevLostBytes s' = mPrevLostBytes s"
  using assms
  by (auto simp: read_data_def Let_def trackMaxAmplitude_fields
        split: if_splits outcome.splits)




text \<open>
  The media time and the drift time that \<^verbatim>\<open>read\<close> attaches, on either branch: the
  start time plus the cursor before the buffer, and the time of this read minus
  \<open>mInitialReadTimeUs\<close>; the cursor then moves forward.
\<close>

lemma read_iter_buffer:
  assumes "read_iter c d t opts ob s = Finished (OK, Some b, s')"
  shows "let s1 = (if getPosition ob = 0 \<and> mPrevSampleTimeUs s = 0
                   then anchor_first_data d t s else s)
         in kKeyTime (meta b) = Some (mStartTimeUs s' + mPrevSampleTimeUs s1)
            \<and> kKeyDriftTime (meta b) = Some (t - mInitialReadTimeUs s1)
            \<and> mStartTimeUs s' = mStartTimeUs s1
            \<and> mPrevSampleTimeUs s1 < mPrevSampleTimeUs s'"
  using assms
  unfolding read_iter_eq Let_def
  by (metis read_lost_buffer read_data_buffer)

text \<open>What the callback queues, when it queues a buffer.\<close>

lemma callback_buffer:
  assumes "dataCallbackTimestamp d lost ab t s = Returns (OK, s')"
    and "mBuffersReceived s' = mBuffersReceived s @ [b]"
  shows "let s1 = (if mNumFramesReceived s = 0 \<and> mPrevSampleTimeUs s = 0
                   then anchor_first_data d t s else s);
             numLostBytes = (if mNumFramesReceived s > 0 then lost * frameSize d else 0)
         in numLostBytes AND 1 = 0
            \<and> range_length b = numLostBytes + size_of ab
            \<and> bdata b = replicate (unat numLostBytes) 0 @ raw ab
            \<and> kKeyTime (meta b) = Some (mPrevSampleTimeUs s1)
            \<and> kKeyDriftTime (meta b) = Some (t - mInitialReadTimeUs s1)
            \<and> mStartTimeUs s' = mStartTimeUs s1
            \<and> mPrevSampleTimeUs s'
                = mPrevSampleTimeUs s1 + roundedDurationUs (mSampleRate s) (range_length b)"
  using assms
  by (auto simp: dataCallbackTimestamp_def Let_def anchor_fields word_gt_0 split: if_splits)

subsection \<open>A skip request against the buffer a round would deliver\<close>




subsection \<open>Arithmetic of the lost bytes\<close>

lemma and1_even: "(w :: 32 word) AND 1 = 0 \<Longrightarrow> even (unat w)"
  by (metis (no_types, lifting) even_and_iff even_zero odd_one unsigned_0
    unsigned_1 unsigned_and_eq)

lemma pending_uint:
  assumes "0 \<le> p" and "2 * uint (k :: 32 word) + p < 2 ^ 32"
  shows "uint (push_bit 1 k + word_of_int p :: 32 word) = 2 * uint k + p"
proof -
  have "push_bit 1 k + word_of_int p = (word_of_int (2 * uint k + p) :: 32 word)"
    by (simp add: push_bit_eq_mult)
  moreover have "0 \<le> 2 * uint k + p" using assms(1) by simp
  ultimately show ?thesis
    using assms(2) by (simp add: uint_word_of_int_eq take_bit_int_eq_self del: of_int_add)
qed

lemma lost_split:
  "uint (p - (if m < p then m else p)) + uint (if m < p then m else p) = uint (p :: 32 word)"
proof (cases "m < p")
  case True
  then have "m \<le> p" by simp
  then have "uint (p - m) = uint p - uint m" by (simp add: uint_minus_simple_alt)
  with True show ?thesis by simp
next
  case False
  then show ?thesis by simp
qed

lemma frameSize_mult: "lost * frameSize d = lost * 2 * word_of_nat (channelCount d)"
  by (simp add: frameSize_def)

text \<open>The wait of \<^verbatim>\<open>stop\<close> ends only on a count that is not positive.\<close>

lemma wait_ends_not_positive:
  "waitOutstandingEncodingFrames_l others s = Some s' \<Longrightarrow> mNumClientOwnedBuffers s' \<le> 0"
  by (induction others arbitrary: s) (auto split: if_splits)

section \<open>The claims\<close>

subsection \<open>Timestamps\<close>

text \<open>
  C1 (fails on the push path). The claim: every buffer, from either branch of \<^verbatim>\<open>read\<close>
  or from the data callback, carries the media time "effective start time + cursor
  before the buffer". The callback attaches the cursor alone: on the first callback of
  the concrete session the effective start time is 100000, the cursor before the buffer
  is 100000, and the buffer queued carries 100000, where \<^verbatim>\<open>read\<close> at the same point
  attaches 200000.
\<close>

theorem C1_callback_keytime_omits_start:
  "map_option (map (kKeyTime \<circ> meta) \<circ> mBuffersReceived) first_push = Some [Some 100000]
   \<and> map_option mStartTimeUs first_push = Some 100000
   \<and> mPrevSampleTimeUs (anchor_first_data mono_44100 5000000 started_source) = 100000
   \<and> map_option (kKeyTime \<circ> meta) (buffer_of first_read) = Some (Some (100000 + 100000))"
  by (simp add: first_push_def first_read_eq started_source_eq callback_defs mono_44100_def)

text \<open>
  C2 (fails when the two paths alternate). The claim: the media times of the successive
  buffers of a session, pulled and/or pushed, increase strictly. The buffer of the first
  \<^verbatim>\<open>read\<close> carries 200000 (start time plus cursor); the callback that follows it
  queues a buffer that carries the cursor alone, 100022.
\<close>

theorem C2_push_after_pull_goes_back:
  "map_option (kKeyTime \<circ> meta) (buffer_of first_read) = Some (Some 200000)
   \<and> map_option (map (kKeyTime \<circ> meta) \<circ> mBuffersReceived) push_after_first_read
       = Some [Some 100022]"
  by (simp add: push_after_first_read_def first_read_eq started_source_eq callback_defs
        mono_44100_def)

text \<open>
  C7 (fails on the data branch of \<^verbatim>\<open>read\<close>). The claim: every path advances the
  cursor by the rounded duration \<open>(samples * 1000000 + rate / 2) / rate\<close>. For 2048
  bytes at 44100 Hz that is 23220; the data branch advances the cursor by 23219, on the
  first read of the session and on the next one.
\<close>

theorem C7_data_path_truncates:
  "map_option mPrevSampleTimeUs
     (state_of (read header_2048 mono_44100 5000000 None
                  [obs_data 0 (replicate 2048 7)] started_source))
     = Some (100000 + 23219)
   \<and> map_option mPrevSampleTimeUs
       (state_of (read header_2048 mono_44100 6000000 None
                    [obs_data 1024 (replicate 2048 7)]
                    (started_source\<lparr>mInitialReadTimeUs := 5000000, mStartTimeUs := 100000,
                                   mPrevSampleTimeUs := 123219\<rparr>)))
     = Some (123219 + 23219)
   \<and> roundedDurationUs 44100 2048 = 23220"
  by (simp add: started_source_eq read_defs mono_44100_def header_2048_def)

text \<open>
  C3 as stated fails: with 44100 Hz, one channel and 100 lost frames the first
  \<^verbatim>\<open>read\<close> returns 200 zero bytes, but the media time it attaches is not advanced:
  on a device without latency the start time is 0 and the buffer carries 0; it is the
  cursor, which the next buffer will carry, that has moved by 2268.
\<close>

theorem C3_attached_time_not_advanced:
  "map_option (kKeyTime \<circ> meta) (buffer_of (lost_frames_read mono_no_latency None 100))
     = Some (Some 0)
   \<and> map_option (kKeyTime \<circ> meta) (buffer_of (lost_frames_read mono_no_latency None 100))
     \<noteq> Some (Some (0 + 2268))
   \<and> map_option mStartTimeUs (state_of (lost_frames_read mono_no_latency None 100)) = Some 0
   \<and> map_option mPrevSampleTimeUs (state_of (lost_frames_read mono_no_latency None 100))
     = Some 2268"
  by (simp add: lost_frames_read_def started_source_eq read_defs mono_no_latency_def
        header_2048_def)

text \<open>
  C3, amended: at 44100 Hz with one channel, when the device reports 100 lost frames,
  no carryover is pending, the buffer holds 200 bytes and no skip is requested,
  \<^verbatim>\<open>read\<close> returns in its first round a buffer whose valid range is 200 zero bytes;
  the media time attached is the start time plus the cursor before the buffer, and the
  cursor is advanced by 2268 = round(100 * 1e6 / 44100) microseconds. (The theorem is
  stated for any device record; the claim is its instance at one channel, which is the
  instance of the witness.)
\<close>

theorem C3_first_read_after_loss:
  assumes "mInitCheck s = OK" and "mGroup s" and "mStarted s"
    and "getSampleRate d = 44100" and "getInputFramesLost ob = 100"
    and "mPrevLostBytes s = 0" and "200 \<le> kMaxBufferSize c"
  shows "\<exists>b s'. read c d t None (ob # obs) s = Some (Returns (OK, Some b, s'))
           \<and> range_length b = 200 \<and> bdata b = replicate 200 0
           \<and> kKeyTime (meta b) = Some (mStartTimeUs s' + (mPrevSampleTimeUs s' - 2268))
           \<and> mPrevSampleTimeUs s' - 2268 =
               mPrevSampleTimeUs (if getPosition ob = 0 \<and> mPrevSampleTimeUs s = 0
                                  then anchor_first_data d t s else s)"
proof -
  have le: "\<not> kMaxBufferSize c < 200" using assms(7) by (simp add: not_less)
  show ?thesis
    using assms(1-6) le
    by (simp add: read_def read_iter_eq Let_def read_lost_def roundedDurationUs_def
          skipFrame_def)
qed

theorem C3_first_read_after_loss_witness:
  "mInitCheck started_source = OK \<and> mGroup started_source \<and> mStarted started_source
   \<and> getSampleRate mono_44100 = 44100 \<and> getInputFramesLost (obs_lost 100) = 100
   \<and> mPrevLostBytes started_source = 0 \<and> 200 \<le> kMaxBufferSize header_2048
   \<and> channelCount mono_44100 = 1
   \<and> (\<exists>b s'. read header_2048 mono_44100 5000000 None [obs_lost 100] started_source
                 = Some (Returns (OK, Some b, s'))
           \<and> range_length b = 200 \<and> bdata b = replicate 200 0
           \<and> kKeyTime (meta b) = Some (mStartTimeUs s' + (mPrevSampleTimeUs s' - 2268))
           \<and> mPrevSampleTimeUs s' - 2268 =
               mPrevSampleTimeUs
                 (if getPosition (obs_lost 100) = 0 \<and> mPrevSampleTimeUs started_source = 0
                  then anchor_first_data mono_44100 5000000 started_source
                  else started_source))"
proof -
  have h1: "mInitCheck started_source = OK" and h2: "mGroup started_source"
    and h3: "mStarted started_source" and h6: "mPrevLostBytes started_source = 0"
    by (simp_all add: started_source_eq)
  have h4: "getSampleRate mono_44100 = 44100" by (simp add: mono_44100_def)
  have h5: "getInputFramesLost (obs_lost 100) = 100" by (simp add: obs_lost_def)
  have h7: "200 \<le> kMaxBufferSize header_2048" by (simp add: header_2048_def)
  have h8: "channelCount mono_44100 = 1" by (simp add: mono_44100_def)
  from C3_first_read_after_loss [OF h1 h2 h3 h4 h5 h6 h7, where t = 5000000 and obs = "[]"]
  show ?thesis using h1 h2 h3 h4 h5 h6 h7 h8 by blast
qed

subsection \<open>Skipping\<close>




subsection \<open>Lost frames\<close>

text \<open>
  C6 as stated fails on both paths. Pull, stereo: 100 lost frames give a buffer of 200
  bytes, not of 100 * 2 * 2. Push, with a carryover of 1952 bytes pending from a
  \<^verbatim>\<open>read\<close>: 10 lost frames and 2 bytes of data give a buffer of 22 bytes; the
  carryover is not added.
\<close>

theorem C6_stereo_pull_and_carryover_push:
  "map_option range_length (buffer_of (lost_frames_read stereo_44100 None 100)) = Some 200
   \<and> (200 :: 32 word) \<noteq> 100 * 2 * word_of_nat (channelCount stereo_44100)
   \<and> map_option mPrevLostBytes used_source = Some 1952
   \<and> map_option mNumFramesReceived used_source = Some 1
   \<and> map_option (map range_length \<circ> mBuffersReceived) push_on_used = Some [2, 22]
   \<and> (22 :: 32 word) \<noteq> 10 * 2 * word_of_nat (channelCount mono_44100) + 1952 + 2"
  by (simp add: lost_frames_read_def push_on_used_def used_source_eq started_source_eq
        read_defs callback_defs stereo_44100_def mono_44100_def header_2048_def)

text \<open>
  C6, amended: in a callback with prior frames received, the lost frames count as
  frames * 2 * channel count bytes of zeros in front of the data, and no carryover is
  added (the pushed buffer is as large as needed). In a round of \<^verbatim>\<open>read\<close> on a mono
  device that delivers a buffer of lost data, the bytes of the buffer and the carryover
  left for the next round add up to frames * 2 * channel count plus the carryover found
  (the sum being positive and within 32 bits).
\<close>

theorem C6_lost_frames_to_bytes:
  "(read_iter c d t opts ob s = Finished (OK, Some b, s') \<and> channelCount d = 1
      \<and> 0 \<le> mPrevLostBytes s \<and> 0 < 2 * uint (getInputFramesLost ob) + mPrevLostBytes s
      \<and> 2 * uint (getInputFramesLost ob) + mPrevLostBytes s < 2 ^ 32
    \<longrightarrow> uint (range_length b) + mPrevLostBytes s'
          = uint (getInputFramesLost ob) * 2 * int (channelCount d) + mPrevLostBytes s
        \<and> bdata b = replicate (unat (range_length b)) 0)
   \<and> (dataCallbackTimestamp d lost ab t2 s2 = Returns (OK, s2')
      \<and> mBuffersReceived s2' = mBuffersReceived s2 @ [b2] \<and> 0 < mNumFramesReceived s2
    \<longrightarrow> range_length b2 = lost * 2 * word_of_nat (channelCount d) + size_of ab
        \<and> bdata b2 = replicate (unat (lost * 2 * word_of_nat (channelCount d))) 0 @ raw ab)"
proof (intro conjI impI)
  assume a: "read_iter c d t opts ob s = Finished (OK, Some b, s') \<and> channelCount d = 1
      \<and> 0 \<le> mPrevLostBytes s \<and> 0 < 2 * uint (getInputFramesLost ob) + mPrevLostBytes s
      \<and> 2 * uint (getInputFramesLost ob) + mPrevLostBytes s < 2 ^ 32"
  let ?p = "push_bit 1 (getInputFramesLost ob) + word_of_int (mPrevLostBytes s) :: 32 word"
  let ?s1 = "if getPosition ob = 0 \<and> mPrevSampleTimeUs s = 0
             then anchor_first_data d t s else s"
  from a have ri: "read_iter c d t opts ob s = Finished (OK, Some b, s')"
    and mono: "channelCount d = 1"
    and p0: "0 \<le> mPrevLostBytes s"
    and p1: "0 < 2 * uint (getInputFramesLost ob) + mPrevLostBytes s"
    and p2: "2 * uint (getInputFramesLost ob) + mPrevLostBytes s < 2 ^ 32"
    by blast+
  have u: "uint ?p = 2 * uint (getInputFramesLost ob) + mPrevLostBytes s"
    using p0 p2 by (rule pending_uint)
  have nz: "?p \<noteq> 0"
  proof
    assume "?p = 0"
    then have "uint ?p = 0" by simp
    with u p1 show False by linarith
  qed
  from ri have "read_lost c d t opts (getPosition ob) ?p ?s1 = Finished (OK, Some b, s')"
    unfolding read_iter_lost [OF nz] .
  from read_lost_buffer [OF this]
  have r: "range_length b = (if kMaxBufferSize c < ?p then kMaxBufferSize c else ?p)"
    and z: "bdata b = replicate (unat (range_length b)) 0"
    and l: "mPrevLostBytes s' = uint (?p - range_length b)"
    by blast+
  have "uint (range_length b) + mPrevLostBytes s' = uint ?p"
    unfolding l r using lost_split [of ?p "kMaxBufferSize c"] by simp
  with u mono
  show "uint (range_length b) + mPrevLostBytes s'
          = uint (getInputFramesLost ob) * 2 * int (channelCount d) + mPrevLostBytes s"
    by simp
  from z show "bdata b = replicate (unat (range_length b)) 0" .
next
  assume a: "dataCallbackTimestamp d lost ab t2 s2 = Returns (OK, s2')
      \<and> mBuffersReceived s2' = mBuffersReceived s2 @ [b2] \<and> 0 < mNumFramesReceived s2"
  then have c1: "dataCallbackTimestamp d lost ab t2 s2 = Returns (OK, s2')"
    and c2: "mBuffersReceived s2' = mBuffersReceived s2 @ [b2]"
    and c3: "0 < mNumFramesReceived s2" by simp_all
  from callback_buffer [OF c1 c2] c3
  show "range_length b2 = lost * 2 * word_of_nat (channelCount d) + size_of ab"
    and "bdata b2 = replicate (unat (lost * 2 * word_of_nat (channelCount d))) 0 @ raw ab"
    by (simp_all add: Let_def frameSize_mult)
qed

theorem C6_lost_frames_to_bytes_witness:
  "(\<exists>b s'. read_iter header_2048 mono_44100 5000000 None (obs_lost 2000) started_source
              = Finished (OK, Some b, s')
        \<and> channelCount mono_44100 = 1 \<and> 0 \<le> mPrevLostBytes started_source
        \<and> 0 < 2 * uint (getInputFramesLost (obs_lost 2000)) + mPrevLostBytes started_source
        \<and> 2 * uint (getInputFramesLost (obs_lost 2000)) + mPrevLostBytes started_source < 2 ^ 32
        \<and> uint (range_length b) + mPrevLostBytes s' = 4000
        \<and> bdata b = replicate (unat (range_length b)) 0)
   \<and> (\<exists>s2 s2' b2. used_source = Some s2
        \<and> dataCallbackTimestamp mono_44100 10 \<lparr>raw = [1, 0]\<rparr> 5000100 s2 = Returns (OK, s2')
        \<and> mBuffersReceived s2' = mBuffersReceived s2 @ [b2] \<and> 0 < mNumFramesReceived s2
        \<and> range_length b2 = 22
        \<and> bdata b2 = replicate 20 0 @ [1, 0])"
proof -
  have "\<exists>b s'. read_iter header_2048 mono_44100 5000000 None (obs_lost 2000) started_source
                 = Finished (OK, Some b, s')"
    by (simp add: started_source_eq read_iter_def anchor_first_data_def read_lost_def
          roundedDurationUs_def skipFrame_def obs_lost_def mono_44100_def header_2048_def)
  then obtain b s' where
    ri: "read_iter header_2048 mono_44100 5000000 None (obs_lost 2000) started_source
           = Finished (OK, Some b, s')"
    by blast
  have g1: "channelCount mono_44100 = 1" by (simp add: mono_44100_def)
  have g2: "0 \<le> mPrevLostBytes started_source" by (simp add: started_source_eq)
  have g3: "0 < 2 * uint (getInputFramesLost (obs_lost 2000)) + mPrevLostBytes started_source"
    by (simp add: started_source_eq obs_lost_def)
  have g4: "2 * uint (getInputFramesLost (obs_lost 2000)) + mPrevLostBytes started_source < 2 ^ 32"
    by (simp add: started_source_eq obs_lost_def)
  from C6_lost_frames_to_bytes
         [where c = header_2048 and d = mono_44100 and t = 5000000 and opts = None
            and ob = "obs_lost 2000" and s = started_source and b = b and s' = s',
          THEN conjunct1] ri g1 g2 g3 g4
  have pull: "uint (range_length b) + mPrevLostBytes s'
                = uint (getInputFramesLost (obs_lost 2000)) * 2 * int (channelCount mono_44100)
                  + mPrevLostBytes started_source
              \<and> bdata b = replicate (unat (range_length b)) 0"
    by blast
  then have pull': "uint (range_length b) + mPrevLostBytes s' = 4000"
    by (simp add: started_source_eq obs_lost_def mono_44100_def)
  obtain s2 where u: "used_source = Some s2" by (simp add: used_source_eq)
  have n: "0 < mNumFramesReceived s2" using u by (auto simp: used_source_eq)
  have "\<exists>s2' b2. dataCallbackTimestamp mono_44100 10 \<lparr>raw = [1, 0]\<rparr> 5000100 s2 = Returns (OK, s2')
          \<and> mBuffersReceived s2' = mBuffersReceived s2 @ [b2]"
    using u by (auto simp: used_source_eq started_source_eq callback_defs mono_44100_def)
  then obtain s2' b2 where
    c1: "dataCallbackTimestamp mono_44100 10 \<lparr>raw = [1, 0]\<rparr> 5000100 s2 = Returns (OK, s2')"
    and c2: "mBuffersReceived s2' = mBuffersReceived s2 @ [b2]"
    by blast
  from C6_lost_frames_to_bytes
         [where d = mono_44100 and lost = 10 and ab = "\<lparr>raw = [1, 0]\<rparr>" and ?t2.0 = 5000100
            and ?s2.0 = s2 and s2' = s2' and ?b2.0 = b2,
          THEN conjunct2] c1 c2 n
  have "range_length b2 = 10 * 2 * word_of_nat (channelCount mono_44100) + size_of \<lparr>raw = [1, 0]\<rparr>
        \<and> bdata b2
            = replicate (unat (10 * 2 * word_of_nat (channelCount mono_44100) :: 32 word)) 0
              @ raw \<lparr>raw = [1, 0]\<rparr>"
    by blast
  then have push: "range_length b2 = 22 \<and> bdata b2 = replicate 20 0 @ [1, 0]"
    by (simp add: mono_44100_def size_of_def)
  from ri g1 g2 g3 g4 pull pull' u c1 c2 n push show ?thesis by blast
qed

text \<open>
  C10 as stated fails in its second half: after 5000 lost frames the buffer takes 2048
  bytes and 7952 bytes are carried over, more than one buffer holds.
\<close>

theorem C10_carryover_exceeds_capacity:
  "map_option mPrevLostBytes (state_of (lost_frames_read mono_44100 None 5000)) = Some 7952
   \<and> map_option range_length (buffer_of (lost_frames_read mono_44100 None 5000)) = Some 2048
   \<and> \<not> (7952 :: int) \<le> uint (kMaxBufferSize header_2048)"
  by (simp add: lost_frames_read_def started_source_eq read_defs mono_44100_def header_2048_def)

text \<open>
  C10, amended: a buffer of lost data that a round of \<^verbatim>\<open>read\<close> delivers holds an even
  number of bytes, all zero: all the pending lost bytes when they fit into one buffer,
  and the maximum buffer size otherwise. The carryover left is then the whole excess of
  the pending lost bytes over the maximum buffer size (whatever its amount), and zero
  when they fit. The zeros that the callback puts in front of the data of a pushed
  buffer are even in number too.
\<close>

theorem C10_synthetic_buffer_bounds:
  "(read_iter c d t opts ob s = Finished (OK, Some b, s')
      \<and> push_bit 1 (getInputFramesLost ob) + word_of_int (mPrevLostBytes s) \<noteq> (0 :: 32 word)
    \<longrightarrow> even (unat (range_length b)) \<and> range_length b \<le> kMaxBufferSize c
        \<and> bdata b = replicate (unat (range_length b)) 0
        \<and> mPrevLostBytes s'
            = uint (push_bit 1 (getInputFramesLost ob) + word_of_int (mPrevLostBytes s) :: 32 word)
              - uint (range_length b)
        \<and> range_length b
            = (if kMaxBufferSize c
                    < push_bit 1 (getInputFramesLost ob) + word_of_int (mPrevLostBytes s)
               then kMaxBufferSize c
               else push_bit 1 (getInputFramesLost ob) + word_of_int (mPrevLostBytes s))
        \<and> mPrevLostBytes s'
            = (if kMaxBufferSize c
                    < push_bit 1 (getInputFramesLost ob) + word_of_int (mPrevLostBytes s)
               then uint (push_bit 1 (getInputFramesLost ob)
                          + word_of_int (mPrevLostBytes s) :: 32 word)
                    - uint (kMaxBufferSize c)
               else 0))
   \<and> (dataCallbackTimestamp d lost ab t2 s2 = Returns (OK, s2')
      \<and> mBuffersReceived s2' = mBuffersReceived s2 @ [b2]
    \<longrightarrow> even (length (bdata b2) - length (raw ab))
        \<and> bdata b2 = replicate (length (bdata b2) - length (raw ab)) 0 @ raw ab)"
proof (intro conjI impI)
  let ?p = "push_bit 1 (getInputFramesLost ob) + word_of_int (mPrevLostBytes s) :: 32 word"
  let ?s1 = "if getPosition ob = 0 \<and> mPrevSampleTimeUs s = 0
             then anchor_first_data d t s else s"
  assume a: "read_iter c d t opts ob s = Finished (OK, Some b, s') \<and> ?p \<noteq> 0"
  then have ri: "read_iter c d t opts ob s = Finished (OK, Some b, s')" and nz: "?p \<noteq> 0"
    by blast+
  from ri have "read_lost c d t opts (getPosition ob) ?p ?s1 = Finished (OK, Some b, s')"
    unfolding read_iter_lost [OF nz] .
  from read_lost_buffer [OF this]
  have e: "range_length b AND 1 = 0" and le: "range_length b \<le> kMaxBufferSize c"
    and r: "range_length b = (if kMaxBufferSize c < ?p then kMaxBufferSize c else ?p)"
    and z: "bdata b = replicate (unat (range_length b)) 0"
    and l: "mPrevLostBytes s' = uint (?p - range_length b)"
    by blast+
  from e show "even (unat (range_length b))" by (rule and1_even)
  from le show "range_length b \<le> kMaxBufferSize c" .
  from z show "bdata b = replicate (unat (range_length b)) 0" .
  have "uint (range_length b) + mPrevLostBytes s' = uint ?p"
    unfolding l r using lost_split [of ?p "kMaxBufferSize c"] by simp
  then show carry: "mPrevLostBytes s' = uint ?p - uint (range_length b)" by simp
  from r show "range_length b = (if kMaxBufferSize c < ?p then kMaxBufferSize c else ?p)" .
  show "mPrevLostBytes s' = (if kMaxBufferSize c < ?p then uint ?p - uint (kMaxBufferSize c) else 0)"
  proof (cases "kMaxBufferSize c < ?p")
    case True
    with r have "range_length b = kMaxBufferSize c" by (simp only: if_True)
    with carry True show ?thesis by (simp only: if_True)
  next
    case False
    with r have "range_length b = ?p" by (simp only: if_False)
    with carry False show ?thesis by (simp only: if_False diff_self)
  qed
next
  assume a: "dataCallbackTimestamp d lost ab t2 s2 = Returns (OK, s2')
      \<and> mBuffersReceived s2' = mBuffersReceived s2 @ [b2]"
  then have c1: "dataCallbackTimestamp d lost ab t2 s2 = Returns (OK, s2')"
    and c2: "mBuffersReceived s2' = mBuffersReceived s2 @ [b2]" by simp_all
  let ?n = "if mNumFramesReceived s2 > 0 then lost * frameSize d else 0"
  from callback_buffer [OF c1 c2]
  have e: "?n AND 1 = 0" and z: "bdata b2 = replicate (unat ?n) 0 @ raw ab"
    by (simp_all add: Let_def)
  from z have len: "length (bdata b2) - length (raw ab) = unat ?n" by simp
  from e have "even (unat ?n)" by (rule and1_even)
  with len show "even (length (bdata b2) - length (raw ab))" by simp
  from z len show "bdata b2 = replicate (length (bdata b2) - length (raw ab)) 0 @ raw ab"
    by simp
qed

theorem C10_synthetic_buffer_bounds_witness:
  "(\<exists>b s'. read_iter header_2048 mono_44100 5000000 None (obs_lost 5000) started_source
              = Finished (OK, Some b, s')
        \<and> push_bit 1 (getInputFramesLost (obs_lost 5000))
            + word_of_int (mPrevLostBytes started_source) \<noteq> (0 :: 32 word)
        \<and> even (unat (range_length b)) \<and> range_length b \<le> kMaxBufferSize header_2048
        \<and> bdata b = replicate (unat (range_length b)) 0
        \<and> mPrevLostBytes s' = 10000 - uint (range_length b)
        \<and> range_length b = 2048 \<and> mPrevLostBytes s' = 7952)
   \<and> (\<exists>s2 s2' b2. used_source = Some s2
        \<and> dataCallbackTimestamp mono_44100 10 \<lparr>raw = [1, 0]\<rparr> 5000100 s2 = Returns (OK, s2')
        \<and> mBuffersReceived s2' = mBuffersReceived s2 @ [b2]
        \<and> even (length (bdata b2) - length (raw \<lparr>raw = [1, 0]\<rparr>))
        \<and> bdata b2 = replicate (length (bdata b2) - length (raw \<lparr>raw = [1, 0]\<rparr>)) 0
                        @ raw \<lparr>raw = [1, 0]\<rparr>)"
proof -
  have "\<exists>b s'. read_iter header_2048 mono_44100 5000000 None (obs_lost 5000) started_source
                 = Finished (OK, Some b, s')"
    by (simp add: started_source_eq read_iter_def anchor_first_data_def read_lost_def
          roundedDurationUs_def skipFrame_def obs_lost_def mono_44100_def header_2048_def)
  then obtain b s' where
    ri: "read_iter header_2048 mono_44100 5000000 None (obs_lost 5000) started_source
           = Finished (OK, Some b, s')"
    by blast
  have nz: "push_bit 1 (getInputFramesLost (obs_lost 5000))
              + word_of_int (mPrevLostBytes started_source) \<noteq> (0 :: 32 word)"
    by (simp add: started_source_eq obs_lost_def)
  have v: "uint (push_bit 1 (getInputFramesLost (obs_lost 5000))
              + word_of_int (mPrevLostBytes started_source) :: 32 word) = 10000"
    by (simp add: started_source_eq obs_lost_def)
  from C10_synthetic_buffer_bounds
         [where c = header_2048 and d = mono_44100 and t = 5000000 and opts = None
            and ob = "obs_lost 5000" and s = started_source and b = b and s' = s',
          THEN conjunct1] ri nz
  have pull: "even (unat (range_length b)) \<and> range_length b \<le> kMaxBufferSize header_2048
        \<and> bdata b = replicate (unat (range_length b)) 0
        \<and> mPrevLostBytes s'
            = uint (push_bit 1 (getInputFramesLost (obs_lost 5000))
                    + word_of_int (mPrevLostBytes started_source) :: 32 word)
              - uint (range_length b)"
    and cap: "range_length b
            = (if kMaxBufferSize header_2048
                    < push_bit 1 (getInputFramesLost (obs_lost 5000))
                      + word_of_int (mPrevLostBytes started_source)
               then kMaxBufferSize header_2048
               else push_bit 1 (getInputFramesLost (obs_lost 5000))
                    + word_of_int (mPrevLostBytes started_source))"
    by blast+
  from pull have pull': "mPrevLostBytes s' = 10000 - uint (range_length b)"
    unfolding v by blast
  from cap have full: "range_length b = 2048"
    by (simp add: started_source_eq obs_lost_def header_2048_def)
  with pull' have left: "mPrevLostBytes s' = 7952" by simp
  obtain s2 where u: "used_source = Some s2" by (simp add: used_source_eq)
  have "\<exists>s2' b2. dataCallbackTimestamp mono_44100 10 \<lparr>raw = [1, 0]\<rparr> 5000100 s2 = Returns (OK, s2')
          \<and> mBuffersReceived s2' = mBuffersReceived s2 @ [b2]"
    using u by (auto simp: used_source_eq started_source_eq callback_defs mono_44100_def)
  then obtain s2' b2 where
    c1: "dataCallbackTimestamp mono_44100 10 \<lparr>raw = [1, 0]\<rparr> 5000100 s2 = Returns (OK, s2')"
    and c2: "mBuffersReceived s2' = mBuffersReceived s2 @ [b2]"
    by blast
  from C10_synthetic_buffer_bounds
         [where d = mono_44100 and lost = 10 and ab = "\<lparr>raw = [1, 0]\<rparr>" and ?t2.0 = 5000100
            and ?s2.0 = s2 and s2' = s2' and ?b2.0 = b2,
          THEN conjunct2] c1 c2
  have push: "even (length (bdata b2) - length (raw \<lparr>raw = [1, 0]\<rparr>))
        \<and> bdata b2 = replicate (length (bdata b2) - length (raw \<lparr>raw = [1, 0]\<rparr>)) 0
                        @ raw \<lparr>raw = [1, 0]\<rparr>"
    by blast
  from ri nz pull pull' full left u c1 c2 push show ?thesis by blast
qed

subsection \<open>Starting and stopping\<close>

text \<open>
  What \<^verbatim>\<open>start\<close> assigns when it succeeds, and the three members it never assigns.
\<close>

lemma start_assigns:
  assumes "start stats_prop params record_start s = (OK, s')"
  shows "mStarted s' \<and> mTrackMaxAmplitude s' = False \<and> mMaxAmplitude s' = 0
         \<and> mInitialReadTimeUs s' = 0
         \<and> mStartTimeUs s' =
             (case params of
                None \<Rightarrow> 0
              | Some p \<Rightarrow> (case kKeyTime p of None \<Rightarrow> 0 | Some startTimeUs \<Rightarrow> startTimeUs))"
  using assms
  by (auto simp: start_def Let_def split: if_splits option.splits)

lemma start_keeps:
  "mPrevLostBytes (snd (start stats_prop params record_start s)) = mPrevLostBytes s
   \<and> mPrevSampleTimeUs (snd (start stats_prop params record_start s)) = mPrevSampleTimeUs s
   \<and> mNumFramesReceived (snd (start stats_prop params record_start s)) = mNumFramesReceived s"
  by (simp add: start_def Let_def split: option.splits)

text \<open>
  C9 (fails: three members are never reset). The claim: every successful \<^verbatim>\<open>start\<close>
  resets all the per-session counters, among them the lost-byte carryover, the
  previous-sample media time and the received frame count. \<^verbatim>\<open>start\<close> assigns the
  tracking flag, the peak, the initial read time and the start time only. The session
  that has run both paths, stopped and started again still holds its carryover of 1952
  lost bytes, its cursor 123243 and its count of one received frame; the test for the
  first data of a session (position 0 and cursor 0) then fails on its first
  \<^verbatim>\<open>read\<close>, which is never anchored: it returns the 1952 stale lost bytes as zeros,
  stamped with the old cursor and with a drift of 9000000, the whole wall-clock time,
  and leaves the start time and the initial read time at 0.
\<close>

theorem C9_restart_keeps_counters:
  "map_option fst restarted = Some OK
   \<and> map_option (mPrevLostBytes \<circ> snd) restarted = Some 1952
   \<and> map_option (mPrevSampleTimeUs \<circ> snd) restarted = Some 123243
   \<and> map_option (mNumFramesReceived \<circ> snd) restarted = Some 1
   \<and> status_of read_after_restart = Some OK
   \<and> map_option range_length (buffer_of read_after_restart) = Some 1952
   \<and> map_option bdata (buffer_of read_after_restart) = Some (replicate 1952 0)
   \<and> map_option (kKeyTime \<circ> meta) (buffer_of read_after_restart) = Some (Some 123243)
   \<and> map_option (kKeyDriftTime \<circ> meta) (buffer_of read_after_restart) = Some (Some 9000000)
   \<and> map_option mStartTimeUs (state_of read_after_restart) = Some 0
   \<and> map_option mInitialReadTimeUs (state_of read_after_restart) = Some 0"
  by (simp add: read_after_restart_def restarted_def used_source_eq started_source_eq
        stop_def start_def releaseQueuedFrames_l_def read_defs mono_44100_def header_2048_def)

text \<open>
  C4 (fails: nothing counts a buffer out). The claim: \<^verbatim>\<open>stop\<close> blocks while the
  consumer holds a buffer. \<^verbatim>\<open>read\<close> hands its buffer out without touching
  \<open>mNumClientOwnedBuffers\<close>, so after the first read the count is 0 and \<^verbatim>\<open>stop\<close>,
  with no other thread doing anything, returns \<open>OK\<close>.
\<close>

theorem C4_stop_returns_with_buffer_out:
  "status_of first_read = Some OK
   \<and> buffer_of first_read \<noteq> None
   \<and> map_option mNumClientOwnedBuffers (state_of first_read) = Some 0
   \<and> map_option fst stop_after_first_read = Some OK"
  by (simp add: stop_after_first_read_def first_read_eq started_source_eq stop_def
        releaseQueuedFrames_l_def)

subsection \<open>Amplitude\<close>

text \<open>
  C8 (fails at the extreme sample). The claim: once tracking is active, a buffer that
  holds the sample -32768 makes the next \<^verbatim>\<open>getMaxAmplitude\<close> return its absolute
  value. The negation of -32768 in \<^verbatim>\<open>int16_t\<close> is -32768 again, which is not above the
  peak: the peak stays 0. Shown on \<^verbatim>\<open>trackMaxAmplitude\<close> itself and through a
  \<^verbatim>\<open>read\<close> past the mute and the ramp, whose buffer holds the bytes of that sample.
\<close>

theorem C8_extreme_sample_is_lost:
  "fst (getMaxAmplitude started_source) = 0
   \<and> mTrackMaxAmplitude (snd (getMaxAmplitude started_source))
   \<and> fst (getMaxAmplitude
            (trackMaxAmplitude [- 32768] 1 (snd (getMaxAmplitude started_source)))) = 0
   \<and> sint (- 32768 :: 16 word) = - 32768
   \<and> map_option bdata (buffer_of extreme_read) = Some [0, 128]
   \<and> i16_view [0, 128] = [- 32768]
   \<and> map_option (fst \<circ> getMaxAmplitude) (state_of extreme_read) = Some 0"
  by (simp add: extreme_read_def late_source_def started_source_eq read_defs mono_44100_def
        header_2048_def getMaxAmplitude_def trackMaxAmplitude_def track_sample_def)

end
